theory Spec2Isabelle
  imports Complex_Main "HOL-Library.AList" "HOL-Library.Multiset"
begin

section \<open>The MEP boundary filter (script/2025-05-22-mep.py) and the hex polygon helpers\<close>

text \<open>
  The script is a command-line program: it parses four positional arguments, loads a
  boundary geometry from a WKT file, reads the matrix CSV in chunks, derives a polygon
  for every row's H3 cell, keeps the rows whose polygon the boundary contains, and
  writes the concatenation to the output file.

  The embedding follows the source line by line. Python raises are values of
  \<open>error\<close>; the file system is an explicit \<open>world\<close> that also records which files
  were opened and written; the third-party libraries (shapely's WKT reader and
  \<open>contains\<close>, h3's cell boundary, pandas' CSV parser and writer) are the fields of a
  record \<open>libs\<close>, so every theorem holds for whatever those functions compute. What
  Python and pandas themselves do around those calls (attribute lookup on the argparse
  namespace, \<open>Series.apply\<close> calling its function on each element, subscripting a
  value) is written out. The \<open>print\<close> calls and the tqdm progress bar only write to
  the terminal and are left out.
\<close>

subsection \<open>Exceptions, argument values, the file system\<close>

datatype error =
    SystemExit int
  | AttributeError
  | TypeError
  | ValueError
  | OSError
  | FileNotFoundError
  | WKTReadingError
  | H3CellInvalidError
  | ParserError

datatype outcome = Returned | Raised error

text \<open>A value stored in the argparse namespace: a string from the command line, or an
  integer (what \<open>default=500_000\<close> would store).\<close>

datatype argval = AStr string | AInt int

type_synonym namespace = "(string \<times> argval) list"

type_synonym path = string

datatype event = OpenRead path | WriteFile path

text \<open>The file system: the contents of the files, the paths at which a file can be
  created or replaced, and the files opened and written so far.\<close>

record world =
  files :: "path \<rightharpoonup> string"
  writable :: "path \<Rightarrow> bool"
  events :: "event list"

subsection \<open>Lines 9-13 and 22: the argument parser\<close>

text \<open>
  \<open>argv\<close> holds the words after the program name, none of them in option syntax (a
  leading \<open>-\<close>), which this model does not cover. All four arguments are positional and
  none has \<open>nargs\<close>, so each consumes exactly one word and all are required: a
  \<open>default\<close> on such an argument is never used. argparse exits with status 2 when a
  required argument is missing or a word is left over. The destination of a positional
  argument is its name as written: the dashes of \<open>wkt-boundary-file\<close> and
  \<open>mep-matrix-file\<close> are kept. No \<open>type\<close> is given, so every value is a string.
\<close>

definition parse_args :: "string list \<Rightarrow> error + namespace" where
  "parse_args argv =
     (case argv of
        [b, m, out, c] \<Rightarrow>
          Inr [(''wkt-boundary-file'', AStr b), (''mep-matrix-file'', AStr m),
               (''output_file'', AStr out), (''chunksize'', AStr c)]
      | _ \<Rightarrow> Inl (SystemExit 2))"

text \<open>\<open>args.name\<close>: attribute lookup on the namespace.\<close>

definition getattr :: "namespace \<Rightarrow> string \<Rightarrow> error + argval" where
  "getattr ns name = (case map_of ns name of None \<Rightarrow> Inl AttributeError | Some v \<Rightarrow> Inr v)"

subsection \<open>Files\<close>

text \<open>\<open>open(p)\<close> followed by reading the whole file, and \<open>to_csv(p)\<close>, which opens
  \<open>p\<close> for writing and writes the text: at a path that cannot be written the open
  raises \<open>OSError\<close> and no file is created. Opening an integer (a file descriptor) is
  outside the model and is given as \<open>OSError\<close>.\<close>

definition open_read :: "world \<Rightarrow> argval \<Rightarrow> (error + string) \<times> world" where
  "open_read w a =
     (case a of
        AInt _ \<Rightarrow> (Inl OSError, w)
      | AStr p \<Rightarrow>
          (case files w p of
             None \<Rightarrow> (Inl FileNotFoundError, w)
           | Some txt \<Rightarrow> (Inr txt, w\<lparr>events := events w @ [OpenRead p]\<rparr>)))"

definition write_file :: "world \<Rightarrow> argval \<Rightarrow> string \<Rightarrow> outcome \<times> world" where
  "write_file w a txt =
     (case a of
        AInt _ \<Rightarrow> (Raised OSError, w)
      | AStr p \<Rightarrow>
          if writable w p
          then (Returned, w\<lparr>files := (files w)(p \<mapsto> txt), events := events w @ [WriteFile p]\<rparr>)
          else (Raised OSError, w))"

subsection \<open>Polygons (shapely)\<close>

text \<open>
  A polygon is its exterior ring, a list of (x, y) pairs. The constructor closes the
  ring: it copies the first point to the end when the last point differs from the
  first, and always when there are exactly three points. It refuses a ring that has
  fewer than four points after closing; an empty list gives the empty polygon. The code performs no arithmetic on coordinates, so \<open>real\<close> stands for
  the floating-point numbers.
\<close>

type_synonym coord = real

datatype polygon = Polygon (exterior: "(coord \<times> coord) list")

definition close_ring :: "(coord \<times> coord) list \<Rightarrow> (coord \<times> coord) list" where
  "close_ring cs =
     (if length cs = 3 \<or> (cs \<noteq> [] \<and> hd cs \<noteq> last cs) then cs @ [hd cs] else cs)"

definition new_Polygon :: "(coord \<times> coord) list \<Rightarrow> error + polygon" where
  "new_Polygon cs =
     (let ring = close_ring cs
      in if ring \<noteq> [] \<and> length ring < 4 then Inl ValueError else Inr (Polygon ring))"

text \<open>\<open>shapely.ops.transform(func, polygon)\<close>: the same polygon with \<open>func\<close> applied
  to every coordinate pair.\<close>

definition transform :: "(coord \<Rightarrow> coord \<Rightarrow> coord \<times> coord) \<Rightarrow> polygon \<Rightarrow> polygon" where
  "transform func p = Polygon (map (\<lambda>(x, y). func x y) (exterior p))"

subsection \<open>Data frames (pandas)\<close>

text \<open>A cell is a scalar read from the CSV, a polygon object, or pandas' missing value.
  A row maps column names to cells; a frame is its column names and its rows.\<close>

datatype cell = Scalar string | Geom polygon | NaN

type_synonym row = "(string \<times> cell) list"

record frame =
  columns :: "string list"
  rows :: "row list"

subsection \<open>The libraries\<close>

text \<open>
  \<^item> \<open>wkt_loads\<close>: \<open>shapely.wkt.loads\<close>, from the text of the boundary file to a geometry;
  \<^item> \<open>contains\<close>: \<open>bounds.contains(x)\<close>;
  \<^item> \<open>cell_to_boundary\<close>: \<open>h3.cell_to_boundary\<close> (\<open>h3.h3_to_geo_boundary\<close> in h3
    version 3, which api_sketches.py uses): the vertices of a cell as
    (latitude, longitude) pairs;
  \<^item> \<open>parse_csv\<close>: pandas' CSV parser on the text of the matrix file. It raises when
    the header cannot be read; otherwise it gives the frame of the rows before the first
    line it cannot parse, and the error it raises at that line, if there is one;
  \<^item> \<open>to_csv\<close>: \<open>DataFrame.to_csv(index=False)\<close>, the text written.
\<close>

record 'g libs =
  wkt_loads :: "string \<Rightarrow> error + 'g"
  contains :: "'g \<Rightarrow> cell \<Rightarrow> error + bool"
  cell_to_boundary :: "cell \<Rightarrow> error + (coord \<times> coord) list"
  parse_csv :: "string \<Rightarrow> error + frame \<times> error option"
  to_csv :: "frame \<Rightarrow> string"

text \<open>\<open>df.name\<close>: the column as a series; \<open>AttributeError\<close> when the frame has no
  such column.\<close>

definition column :: "frame \<Rightarrow> string \<Rightarrow> error + cell list" where
  "column df name =
     (if name \<in> set (columns df)
      then Inr (map (\<lambda>r. case map_of r name of Some v \<Rightarrow> v | None \<Rightarrow> NaN) (rows df))
      else Inl AttributeError)"

text \<open>\<open>df[name] = series\<close>: an existing column keeps its place and gets the new values,
  a new column is appended. The series assigned at line 38 comes from \<open>apply\<close> on a
  column of the same frame and has one value for each row.\<close>

definition setitem :: "frame \<Rightarrow> string \<Rightarrow> cell list \<Rightarrow> frame" where
  "setitem df name vs =
     df\<lparr>columns := (if name \<in> set (columns df) then columns df else columns df @ [name]),
        rows := map (\<lambda>(r, v). AList.update name v r) (zip (rows df) vs)\<rparr>"

text \<open>\<open>series.apply(f)\<close>: \<open>f\<close> is called on each element in order, and the first raise
  ends the call. On an empty series \<open>f\<close> is not called.\<close>

fun apply_series :: "('a \<Rightarrow> error + 'b) \<Rightarrow> 'a list \<Rightarrow> error + 'b list" where
  "apply_series f [] = Inr []"
| "apply_series f (x # xs) =
     (case f x of
        Inl e \<Rightarrow> Inl e
      | Inr y \<Rightarrow> (case apply_series f xs of Inl e \<Rightarrow> Inl e | Inr ys \<Rightarrow> Inr (y # ys)))"

text \<open>\<open>df[mask]\<close>: the rows at which the mask is true. The result of \<open>apply\<close> on an
  empty series has dtype object and is not a boolean indexer for pandas, which then
  selects the columns named by the (empty) key: a frame with no column.\<close>

definition getitem_mask :: "frame \<Rightarrow> bool list \<Rightarrow> frame" where
  "getitem_mask df key =
     (if key = [] then \<lparr>columns = [], rows = []\<rparr>
      else df\<lparr>rows := map fst (filter snd (zip (rows df) key))\<rparr>)"

text \<open>\<open>pd.read_csv(..., chunksize=c)\<close> yields the rows \<open>c\<close> at a time; a file with a
  header and no row yields one empty frame.\<close>

function split_rows :: "nat \<Rightarrow> 'a list \<Rightarrow> 'a list list" where
  "split_rows c xs =
     (if c = 0 \<or> length xs \<le> c then [xs] else take c xs # split_rows c (drop c xs))"
  by pat_completeness auto
termination
  by (relation "measure (\<lambda>(c, xs). length xs)") auto

declare split_rows.simps [simp del]

definition read_chunks :: "nat \<Rightarrow> frame \<Rightarrow> frame list" where
  "read_chunks c df = map (\<lambda>rs. df\<lparr>rows := rs\<rparr>) (split_rows c (rows df))"

text \<open>The iterator parses one chunk at a time. A line that cannot be parsed raises when
  the chunk that would hold it is read: the complete chunks before it are yielded first,
  and the rows read before it in its own chunk are not.\<close>

definition chunk_results :: "nat \<Rightarrow> frame \<Rightarrow> error option \<Rightarrow> (error + frame) list" where
  "chunk_results c df bad =
     (case bad of
        None \<Rightarrow> map Inr (read_chunks c df)
      | Some e \<Rightarrow> map Inr (take (length (rows df) div c) (read_chunks c df)) @ [Inl e])"

text \<open>pandas checks \<open>chunksize\<close> before it opens the file: an integer, at least 1. The
  header is read when the file is opened.\<close>

definition validate_chunksize :: "argval \<Rightarrow> error + nat" where
  "validate_chunksize a =
     (case a of
        AInt n \<Rightarrow> if 1 \<le> n then Inr (nat n) else Inl ValueError
      | AStr _ \<Rightarrow> Inl ValueError)"

definition read_csv ::
  "'g libs \<Rightarrow> world \<Rightarrow> argval \<Rightarrow> argval \<Rightarrow> (error + (error + frame) list) \<times> world" where
  "read_csv L w file cs =
     (case validate_chunksize cs of
        Inl e \<Rightarrow> (Inl e, w)
      | Inr c \<Rightarrow>
          (case open_read w file of
             (Inl e, w') \<Rightarrow> (Inl e, w')
           | (Inr txt, w') \<Rightarrow>
               (case parse_csv L txt of
                  Inl e \<Rightarrow> (Inl e, w')
                | Inr (df, bad) \<Rightarrow> (Inr (chunk_results c df bad), w'))))"

text \<open>\<open>pd.concat(frames)\<close>: the union of the columns in order of first appearance, the
  rows one frame after the other, a cell a frame does not have filled with the missing
  value; \<open>ValueError\<close> on an empty list.\<close>

definition fill_row :: "string list \<Rightarrow> row \<Rightarrow> row" where
  "fill_row cols r = map (\<lambda>c. (c, case map_of r c of Some v \<Rightarrow> v | None \<Rightarrow> NaN)) cols"

definition pd_concat :: "frame list \<Rightarrow> error + frame" where
  "pd_concat fs =
     (if fs = [] then Inl ValueError
      else let cols = remdups (concat (map columns fs))
           in Inr \<lparr>columns = cols, rows = map (fill_row cols) (concat (map rows fs))\<rparr>)"

subsection \<open>Lines 28-31, and api_sketches.py lines 23-35: the polygon of a hex cell\<close>

definition hex_to_poly :: "'g libs \<Rightarrow> cell \<Rightarrow> error + polygon" where
  "hex_to_poly L hex_id =
     (case cell_to_boundary L hex_id of
        Inl e \<Rightarrow> Inl e
      | Inr coords \<Rightarrow> new_Polygon (map (\<lambda>t. (snd t, fst t)) coords))"

definition polygon_for_hex_id :: "'g libs \<Rightarrow> cell \<Rightarrow> error + polygon" where
  "polygon_for_hex_id L hex_id =
     (case cell_to_boundary L hex_id of
        Inl e \<Rightarrow> Inl e
      | Inr boundary \<Rightarrow>
          (case new_Polygon boundary of
             Inl e \<Rightarrow> Inl e
           | Inr p \<Rightarrow> Inr (transform (\<lambda>x y. (y, x)) p)))"

subsection \<open>Lines 33-34: the containment test\<close>

text \<open>\<open>value[key]\<close> with a string key. None of the values a cell can hold supports it:
  a shapely geometry and a number define no subscript, and a string takes integer
  indices only.\<close>

fun cell_getitem :: "cell \<Rightarrow> string \<Rightarrow> error + cell" where
  "cell_getitem (Scalar s) key = Inl TypeError"
| "cell_getitem (Geom p) key = Inl TypeError"
| "cell_getitem NaN key = Inl TypeError"

definition in_bounds :: "'g libs \<Rightarrow> 'g \<Rightarrow> cell \<Rightarrow> error + bool" where
  "in_bounds L bounds row =
     (case cell_getitem row ''geometry'' of
        Inl e \<Rightarrow> Inl e
      | Inr g \<Rightarrow> contains L bounds g)"

subsection \<open>Lines 36-40: the loop over the chunks\<close>

text \<open>Lines 38 and 39, for one chunk. \<open>df.geometry.apply(in_bounds)\<close> is
  \<open>Series.apply\<close>: \<open>in_bounds\<close> receives the elements of the geometry column, the
  polygons themselves.\<close>

definition add_geometry :: "'g libs \<Rightarrow> frame \<Rightarrow> error + frame" where
  "add_geometry L df =
     (case column df ''grid_id'' of
        Inl e \<Rightarrow> Inl e
      | Inr ids \<Rightarrow>
          (case apply_series (hex_to_poly L) ids of
             Inl e \<Rightarrow> Inl e
           | Inr polys \<Rightarrow> Inr (setitem df ''geometry'' (map Geom polys))))"

definition keep_in_bounds :: "'g libs \<Rightarrow> 'g \<Rightarrow> frame \<Rightarrow> error + frame" where
  "keep_in_bounds L bounds df =
     (case column df ''geometry'' of
        Inl e \<Rightarrow> Inl e
      | Inr gs \<Rightarrow>
          (case apply_series (in_bounds L bounds) gs of
             Inl e \<Rightarrow> Inl e
           | Inr key \<Rightarrow> Inr (getitem_mask df key)))"

definition loop_body :: "'g libs \<Rightarrow> 'g \<Rightarrow> frame \<Rightarrow> error + frame" where
  "loop_body L bounds df =
     (case add_geometry L df of
        Inl e \<Rightarrow> Inl e
      | Inr df1 \<Rightarrow> keep_in_bounds L bounds df1)"

text \<open>The \<open>for\<close> loop: each step asks the iterator for the next chunk, which is a frame
  or a raise of the parser, and runs lines 38 and 39 on the frame.\<close>

fun chunk_loop ::
  "'g libs \<Rightarrow> 'g \<Rightarrow> frame list \<Rightarrow> (error + frame) list \<Rightarrow> error + frame list" where
  "chunk_loop L bounds in_bounds_acc [] = Inr in_bounds_acc"
| "chunk_loop L bounds in_bounds_acc (Inl e # rest) = Inl e"
| "chunk_loop L bounds in_bounds_acc (Inr df # rest) =
     (case loop_body L bounds df of
        Inl e \<Rightarrow> Inl e
      | Inr kept \<Rightarrow> chunk_loop L bounds (in_bounds_acc @ [kept]) rest)"

subsection \<open>Lines 21-42: run\<close>

text \<open>\<open>run_body\<close> is lines 25-42, from a namespace; \<open>run\<close> is the whole function, from
  the command line. The world returned with a raise is the world at the raise.\<close>

definition run_body :: "'g libs \<Rightarrow> namespace \<Rightarrow> world \<Rightarrow> outcome \<times> world" where
  "run_body L args w =
     (case getattr args ''wkt_boundary_file'' of
        Inl e \<Rightarrow> (Raised e, w)
      | Inr bf \<Rightarrow>
     (case open_read w bf of
        (Inl e, w1) \<Rightarrow> (Raised e, w1)
      | (Inr txt, w1) \<Rightarrow>
     (case wkt_loads L txt of
        Inl e \<Rightarrow> (Raised e, w1)
      | Inr bounds \<Rightarrow>
     (case getattr args ''mep_matrix_file'' of
        Inl e \<Rightarrow> (Raised e, w1)
      | Inr mf \<Rightarrow>
     (case getattr args ''chunksize'' of
        Inl e \<Rightarrow> (Raised e, w1)
      | Inr cs \<Rightarrow>
     (case read_csv L w1 mf cs of
        (Inl e, w2) \<Rightarrow> (Raised e, w2)
      | (Inr chunks, w2) \<Rightarrow>
     (case chunk_loop L bounds [] chunks of
        Inl e \<Rightarrow> (Raised e, w2)
      | Inr acc \<Rightarrow>
     (case pd_concat acc of
        Inl e \<Rightarrow> (Raised e, w2)
      | Inr result \<Rightarrow>
     (case getattr args ''output_file'' of
        Inl e \<Rightarrow> (Raised e, w2)
      | Inr out \<Rightarrow> write_file w2 out (to_csv L result))))))))))"

definition run :: "'g libs \<Rightarrow> string list \<Rightarrow> world \<Rightarrow> outcome \<times> world" where
  "run L argv w =
     (case parse_args argv of
        Inl e \<Rightarrow> (Raised e, w)
      | Inr args \<Rightarrow> run_body L args w)"

text \<open>Lines 36-40 as a function of the boundary, the chunk size and a matrix that
  parses to its end: what \<open>result\<close> holds at line 40.\<close>

definition filter_matrix :: "'g libs \<Rightarrow> 'g \<Rightarrow> nat \<Rightarrow> frame \<Rightarrow> error + frame" where
  "filter_matrix L bounds c df =
     (case chunk_loop L bounds [] (chunk_results c df None) of
        Inl e \<Rightarrow> Inl e
      | Inr acc \<Rightarrow> pd_concat acc)"

fun is_write :: "event \<Rightarrow> bool" where
  "is_write (WriteFile p) = True"
| "is_write (OpenRead p) = False"

subsection \<open>A test double for the libraries and the scenario of the specification\<close>

text \<open>
  The scenario of the specification: a square boundary, a matrix with the rows
  \<open>{grid_id: H1, pop: 10}\<close> and \<open>{grid_id: H2, pop: 20}\<close>, the cell of H1 inside the
  square and the cell of H2 outside. The double reads exactly the files of the scenario
  and decodes exactly its two cells.
\<close>

definition newline :: char where
  "newline = CHR 0x0A"

definition square_wkt :: string where
  "square_wkt = ''POLYGON ((0 0, 10 0, 10 10, 0 10, 0 0))''"

definition matrix_csv :: string where
  "matrix_csv = ''grid_id,pop'' @ [newline] @ ''H1,10'' @ [newline] @ ''H2,20'' @ [newline]"

definition header_csv :: string where
  "header_csv = ''grid_id,pop'' @ [newline]"

definition matrix_frame :: frame where
  "matrix_frame =
     \<lparr>columns = [''grid_id'', ''pop''],
      rows = [[(''grid_id'', Scalar ''H1''), (''pop'', Scalar ''10'')],
              [(''grid_id'', Scalar ''H2''), (''pop'', Scalar ''20'')]]\<rparr>"

definition header_frame :: frame where
  "header_frame = \<lparr>columns = [''grid_id'', ''pop''], rows = []\<rparr>"

definition in_square :: "coord \<times> coord \<Rightarrow> bool" where
  "in_square xy = (0 \<le> fst xy \<and> fst xy \<le> 10 \<and> 0 \<le> snd xy \<and> snd xy \<le> 10)"

definition H1_boundary :: "(coord \<times> coord) list" where
  "H1_boundary = [(2, 1), (3, 1), (4, 2), (3, 3), (2, 3), (1, 2)]"

definition H2_boundary :: "(coord \<times> coord) list" where
  "H2_boundary = [(22, 21), (23, 21), (24, 22), (23, 23), (22, 23), (21, 22)]"

fun render_cell :: "cell \<Rightarrow> string" where
  "render_cell (Scalar s) = s"
| "render_cell (Geom p) = ''POLYGON''"
| "render_cell NaN = []"

definition render_line :: "string list \<Rightarrow> string" where
  "render_line xs = concat (map (\<lambda>x. x @ '','') xs) @ [newline]"

definition render_csv :: "frame \<Rightarrow> string" where
  "render_csv df =
     render_line (columns df) @
     concat (map (\<lambda>r. render_line (map (\<lambda>c. render_cell (case map_of r c of Some v \<Rightarrow> v | None \<Rightarrow> NaN))
                                     (columns df)))
                 (rows df))"

definition test_libs :: "string libs" where
  "test_libs =
     \<lparr>wkt_loads = (\<lambda>s. if s = square_wkt then Inr s else Inl WKTReadingError),
      contains = (\<lambda>g c. case c of Geom p \<Rightarrow> Inr (list_all in_square (exterior p)) | _ \<Rightarrow> Inl TypeError),
      cell_to_boundary =
        (\<lambda>c. if c = Scalar ''H1'' then Inr H1_boundary
             else if c = Scalar ''H2'' then Inr H2_boundary
             else Inl H3CellInvalidError),
      parse_csv =
        (\<lambda>s. if s = matrix_csv then Inr (matrix_frame, None)
             else if s = header_csv then Inr (header_frame, None)
             else Inl ParserError),
      to_csv = render_csv\<rparr>"

text \<open>A file system with the two input files in which every path can be written, and a
  namespace holding the four
  attributes that \<open>run\<close> reads, the chunk size as an integer.\<close>

definition test_world :: "string \<Rightarrow> string \<Rightarrow> world" where
  "test_world boundary_text matrix_text =
     \<lparr>files = [''boundary.wkt'' \<mapsto> boundary_text, ''matrix.csv'' \<mapsto> matrix_text],
      writable = (\<lambda>p. True), events = []\<rparr>"

definition test_args :: "int \<Rightarrow> namespace" where
  "test_args c =
     [(''wkt_boundary_file'', AStr ''boundary.wkt''), (''mep_matrix_file'', AStr ''matrix.csv''),
      (''output_file'', AStr ''out.csv''), (''chunksize'', AInt c)]"


section \<open>What the loop computes\<close>

text \<open>
  \<open>in_bounds\<close> subscripts its argument with the string \<open>geometry\<close>. It is called by
  \<open>Series.apply\<close> on the elements of the geometry column, which are polygons, so every
  call raises \<open>TypeError\<close> and \<open>bounds.contains\<close> is never reached. The lemmas below
  follow that through the chunk, the loop and the concatenation: the loop completes
  exactly on a matrix that has a \<open>grid_id\<close> column and no row.
\<close>

lemma in_bounds_raises: "in_bounds L bounds c = Inl TypeError"
  by (cases c) (simp_all add: in_bounds_def)

lemma apply_series_length: "apply_series f xs = Inr ys \<Longrightarrow> length ys = length xs"
  by (induction xs arbitrary: ys) (auto split: sum.splits)

lemma apply_in_bounds_iff:
  "(apply_series (in_bounds L bounds) gs = Inr key) = (gs = [] \<and> key = [])"
  by (cases gs) (auto simp: in_bounds_raises)

lemma column_length: "column df name = Inr vs \<Longrightarrow> length vs = length (rows df)"
  by (auto simp: column_def split: if_splits)

lemma keep_in_bounds_iff:
  "(keep_in_bounds L bounds df = Inr r) =
     (''geometry'' \<in> set (columns df) \<and> rows df = [] \<and> r = \<lparr>columns = [], rows = []\<rparr>)"
  by (auto simp: keep_in_bounds_def column_def apply_in_bounds_iff getitem_mask_def
           split: sum.splits if_splits)

lemma add_geometry_columns:
  "add_geometry L df = Inr df1 \<Longrightarrow> ''geometry'' \<in> set (columns df1)"
  by (auto simp: add_geometry_def setitem_def split: sum.splits)

lemma add_geometry_length:
  "add_geometry L df = Inr df1 \<Longrightarrow> length (rows df1) = length (rows df)"
  by (auto simp: add_geometry_def setitem_def split: sum.splits
           dest!: apply_series_length column_length)

lemma add_geometry_empty:
  "rows df = [] \<Longrightarrow>
     add_geometry L df =
       (if ''grid_id'' \<in> set (columns df) then Inr (setitem df ''geometry'' []) else Inl AttributeError)"
  by (simp add: add_geometry_def column_def)

lemma loop_body_iff:
  "(loop_body L bounds df = Inr r) =
     (''grid_id'' \<in> set (columns df) \<and> rows df = [] \<and> r = \<lparr>columns = [], rows = []\<rparr>)"
proof (cases "rows df = []")
  case True
  then show ?thesis
    by (auto simp: loop_body_def add_geometry_empty keep_in_bounds_iff setitem_def)
next
  case False
  have "loop_body L bounds df \<noteq> Inr r"
  proof
    assume ok: "loop_body L bounds df = Inr r"
    then obtain df1 where a: "add_geometry L df = Inr df1" and k: "keep_in_bounds L bounds df1 = Inr r"
      by (auto simp: loop_body_def split: sum.splits)
    from k have "rows df1 = []" by (simp add: keep_in_bounds_iff)
    with add_geometry_length [OF a] False show False by simp
  qed
  with False show ?thesis by simp
qed

lemma chunk_loop_iff:
  "(chunk_loop L bounds acc (map Inr dfs) = Inr r) =
     (list_all (\<lambda>d. ''grid_id'' \<in> set (columns d) \<and> rows d = []) dfs \<and>
      r = acc @ replicate (length dfs) \<lparr>columns = [], rows = []\<rparr>)"
proof (induction dfs arbitrary: acc)
  case Nil
  show ?case by auto
next
  case (Cons d dfs)
  show ?case
  proof (cases "loop_body L bounds d")
    case (Inl e)
    then show ?thesis using loop_body_iff [of L bounds d] by auto
  next
    case (Inr k)
    then show ?thesis using loop_body_iff [of L bounds d k] Cons.IH [of "acc @ [k]"]
      by (auto simp: replicate_app_Cons_same)
  qed
qed

lemma concat_split_rows: "concat (split_rows c xs) = xs"
proof (induction c xs rule: split_rows.induct)
  case (1 c xs)
  show ?case
  proof (cases "c = 0 \<or> length xs \<le> c")
    case True
    then show ?thesis by (subst split_rows.simps) simp
  next
    case False
    with 1 have "concat (split_rows c (drop c xs)) = drop c xs" by simp
    with False show ?thesis by (subst split_rows.simps) simp
  qed
qed

lemma concat_all_empty: "list_all (\<lambda>r. r = []) xss \<Longrightarrow> concat xss = []"
  by (induction xss) auto

lemma split_rows_all_empty: "list_all (\<lambda>r. r = []) (split_rows c xs) = (xs = [])"
proof
  assume "list_all (\<lambda>r. r = []) (split_rows c xs)"
  then have "concat (split_rows c xs) = []" by (rule concat_all_empty)
  then show "xs = []" by (simp add: concat_split_rows)
next
  assume "xs = []"
  then show "list_all (\<lambda>r. r = []) (split_rows c xs)" by (simp add: split_rows.simps)
qed

lemma split_rows_nonempty: "split_rows c xs \<noteq> []"
  by (subst split_rows.simps) simp

lemma read_chunks_rows: "concat (map rows (read_chunks c df)) = rows df"
  by (simp add: read_chunks_def o_def concat_split_rows)

lemma read_chunks_all_empty:
  "list_all (\<lambda>d. ''grid_id'' \<in> set (columns d) \<and> rows d = []) (read_chunks c df) =
     (''grid_id'' \<in> set (columns df) \<and> rows df = [])"
proof -
  have "list_all (\<lambda>d. ''grid_id'' \<in> set (columns d) \<and> rows d = []) (read_chunks c df) =
        (''grid_id'' \<in> set (columns df) \<and> list_all (\<lambda>r. r = []) (split_rows c (rows df)))"
    using split_rows_nonempty [of c "rows df"]
    by (cases "split_rows c (rows df)") (auto simp: read_chunks_def list_all_iff)
  then show ?thesis by (simp add: split_rows_all_empty)
qed

lemma read_chunks_empty: "rows df = [] \<Longrightarrow> read_chunks c df = [df]"
  by (simp add: read_chunks_def split_rows.simps)

lemma filter_matrix_iff:
  "(filter_matrix L bounds c df = Inr r) =
     (''grid_id'' \<in> set (columns df) \<and> rows df = [] \<and> r = \<lparr>columns = [], rows = []\<rparr>)"
proof (cases "''grid_id'' \<in> set (columns df) \<and> rows df = []")
  case True
  then have "chunk_loop L bounds [] (map Inr (read_chunks c df)) = Inr [\<lparr>columns = [], rows = []\<rparr>]"
    using chunk_loop_iff [of L bounds "[]" "[df]" "[\<lparr>columns = [], rows = []\<rparr>]"]
    by (simp only: read_chunks_empty) simp
  then show ?thesis using True by (auto simp: filter_matrix_def chunk_results_def pd_concat_def)
next
  case False
  then have "\<And>acc. chunk_loop L bounds [] (map Inr (read_chunks c df)) \<noteq> Inr acc"
    by (auto simp: chunk_loop_iff read_chunks_all_empty)
  then show ?thesis using False by (auto simp: filter_matrix_def chunk_results_def split: sum.splits)
qed

lemmas test_defs =
  test_libs_def test_world_def test_args_def matrix_frame_def header_frame_def
  matrix_csv_def header_csv_def square_wkt_def newline_def H1_boundary_def H2_boundary_def
  in_square_def render_csv_def render_line_def

lemmas eval_defs =
  run_body_def getattr_def open_read_def write_file_def read_csv_def validate_chunksize_def
  chunk_results_def read_chunks_def split_rows.simps loop_body_def add_geometry_def keep_in_bounds_def
  column_def setitem_def getitem_mask_def pd_concat_def in_bounds_def hex_to_poly_def
  new_Polygon_def close_ring_def

section \<open>The polygon of a hex cell\<close>

lemma close_ring_swap:
  "close_ring (map (\<lambda>t. (snd t, fst t)) cs) = map (\<lambda>t. (snd t, fst t)) (close_ring cs)"
  by (cases "cs = []") (auto simp: close_ring_def hd_map last_map prod_eq_iff)

lemma close_ring_closed: "close_ring cs \<noteq> [] \<Longrightarrow> hd (close_ring cs) = last (close_ring cs)"
  by (cases "cs = []") (auto simp: close_ring_def)

lemma set_close_ring: "set (close_ring cs) = set cs"
  by (cases "cs = []") (auto simp: close_ring_def)

lemma polygon_for_hex_id_eq: "polygon_for_hex_id L hex_id = hex_to_poly L hex_id"
  by (auto simp: polygon_for_hex_id_def hex_to_poly_def new_Polygon_def transform_def Let_def
        close_ring_swap case_prod_beta split: sum.splits)

text \<open>
  Claim C3. For every decodable hex cell identifier, the derived polygon is built from
  the cell's boundary vertices, which the hex-grid system gives in (latitude, longitude)
  order, by reordering each vertex to (longitude, latitude) and closing the vertices
  into a polygon.

  \<open>hex_to_poly\<close> hands the swapped vertices to the polygon constructor. For an open
  loop of at least three vertices, which is what h3 returns, the exterior ring is the
  swapped vertices followed by the first of them again. Every non-empty polygon it
  returns is closed and has exactly the swapped vertices. \<open>polygon_for_hex_id\<close> of
  api_sketches.py, which builds the polygon first and swaps afterwards, returns the
  same polygon.
\<close>

theorem hex_to_poly_swaps_and_closes:
  assumes "cell_to_boundary L hex_id = Inr vs"
  shows "hex_to_poly L hex_id = new_Polygon (map (\<lambda>(lat, lon). (lon, lat)) vs) \<and>
         (3 \<le> length vs \<and> hd vs \<noteq> last vs \<longrightarrow>
            hex_to_poly L hex_id =
              Inr (Polygon (map (\<lambda>(lat, lon). (lon, lat)) vs @ [(snd (hd vs), fst (hd vs))]))) \<and>
         (\<forall>p. hex_to_poly L hex_id = Inr p \<and> exterior p \<noteq> [] \<longrightarrow>
            hd (exterior p) = last (exterior p) \<and>
            set (exterior p) = (\<lambda>(lat, lon). (lon, lat)) ` set vs) \<and>
         polygon_for_hex_id L hex_id = hex_to_poly L hex_id"
proof -
  let ?sw = "\<lambda>t::coord \<times> coord. (snd t, fst t)"
  have sw: "(\<lambda>(lat, lon). (lon, lat)) = ?sw" by (auto simp: fun_eq_iff)
  have a: "hex_to_poly L hex_id = new_Polygon (map ?sw vs)"
    using assms by (simp add: hex_to_poly_def)
  have b: "hex_to_poly L hex_id = Inr (Polygon (map ?sw vs @ [?sw (hd vs)]))"
    if "3 \<le> length vs" "hd vs \<noteq> last vs"
  proof -
    from that have ne: "vs \<noteq> []" by auto
    with that have "close_ring (map ?sw vs) = map ?sw vs @ [?sw (hd vs)]"
      by (auto simp: close_ring_def hd_map last_map prod_eq_iff)
    with that show ?thesis by (simp add: a new_Polygon_def)
  qed
  have c: "hd (exterior p) = last (exterior p) \<and> set (exterior p) = ?sw ` set vs"
    if "hex_to_poly L hex_id = Inr p" "exterior p \<noteq> []" for p
  proof -
    from that(1) have "exterior p = close_ring (map ?sw vs)"
      by (auto simp: a new_Polygon_def Let_def split: if_splits)
    with that(2) show ?thesis
      using close_ring_closed [of "map ?sw vs"] by (simp add: set_close_ring)
  qed
  show ?thesis
    unfolding sw using a b c polygon_for_hex_id_eq [of L hex_id] by blast
qed

theorem hex_to_poly_swaps_and_closes_witness:
  "cell_to_boundary test_libs (Scalar ''H1'') = Inr H1_boundary \<and>
   3 \<le> length H1_boundary \<and> hd H1_boundary \<noteq> last H1_boundary \<and>
   hex_to_poly test_libs (Scalar ''H1'') =
     Inr (Polygon [(1, 2), (1, 3), (2, 4), (3, 3), (3, 2), (2, 1), (1, 2)]) \<and>
   polygon_for_hex_id test_libs (Scalar ''H1'') =
     Inr (Polygon [(1, 2), (1, 3), (2, 4), (3, 3), (3, 2), (2, 1), (1, 2)])"
proof -
  have h: "cell_to_boundary test_libs (Scalar ''H1'') = Inr H1_boundary"
    by (simp add: test_libs_def)
  show ?thesis
    using hex_to_poly_swaps_and_closes [OF h] h
    by (simp add: H1_boundary_def new_Polygon_def close_ring_def)
qed

section \<open>The run\<close>

text \<open>
  Claim C6. If the contents of the boundary file are not parseable as a well-known-text
  geometry, the run fails before any matrix row is read or processed: no chunk of the
  matrix file is consumed and no output is produced.

  Stated for lines 25-42 from a namespace that has the attribute \<open>wkt_boundary_file\<close>:
  the run raises what the WKT reader raised, the files are as they were, and the only
  event is the opening of the boundary file.
\<close>

theorem run_fails_fast_on_bad_boundary:
  assumes "getattr args ''wkt_boundary_file'' = Inr (AStr bf)"
    and "files w bf = Some txt"
    and "wkt_loads L txt = Inl e"
  shows "run_body L args w = (Raised e, w\<lparr>events := events w @ [OpenRead bf]\<rparr>)"
  using assms by (simp add: run_body_def open_read_def)

theorem run_fails_fast_on_bad_boundary_witness:
  "getattr (test_args 1) ''wkt_boundary_file'' = Inr (AStr ''boundary.wkt'') \<and>
   files (test_world ''POLYGON (('' matrix_csv) ''boundary.wkt'' = Some ''POLYGON (('' \<and>
   wkt_loads test_libs ''POLYGON (('' = Inl WKTReadingError \<and>
   run_body test_libs (test_args 1) (test_world ''POLYGON (('' matrix_csv) =
     (Raised WKTReadingError,
      (test_world ''POLYGON (('' matrix_csv)\<lparr>events := [OpenRead ''boundary.wkt'']\<rparr>)"
proof -
  have a: "getattr (test_args 1) ''wkt_boundary_file'' = Inr (AStr ''boundary.wkt'')"
    by (simp add: test_args_def getattr_def)
  have f: "files (test_world ''POLYGON (('' matrix_csv) ''boundary.wkt'' = Some ''POLYGON ((''"
    by (simp add: test_world_def)
  have l: "wkt_loads test_libs ''POLYGON (('' = Inl WKTReadingError"
    by (simp add: test_libs_def square_wkt_def)
  show ?thesis
    using run_fails_fast_on_bad_boundary [OF a f l] a f l by (simp add: test_world_def)
qed

text \<open>
  Claim C1. For every boundary geometry and every input matrix, the output dataset is
  exactly the in-order subsequence of input rows whose derived hex polygon is strictly
  contained in the boundary; no row is duplicated or dropped due to chunk boundaries,
  for any positive chunk size.

  The code does not compute this. In the scenario the polygon of H1 is the hexagon
  below and the boundary contains it, so the row of H1 belongs to the output; the
  filter raises \<open>TypeError\<close> instead, with one chunk and with two. For any libraries,
  boundary, chunk size and matrix, lines 36-40 return a dataset exactly when the matrix
  has a \<open>grid_id\<close> column and no row.
\<close>

theorem filter_raises_on_contained_row:
  "(\<exists>r. filter_matrix L bounds c df = Inr r) = (''grid_id'' \<in> set (columns df) \<and> rows df = []) \<and>
   hex_to_poly test_libs (Scalar ''H1'') =
     Inr (Polygon [(1, 2), (1, 3), (2, 4), (3, 3), (3, 2), (2, 1), (1, 2)]) \<and>
   contains test_libs square_wkt
     (Geom (Polygon [(1, 2), (1, 3), (2, 4), (3, 3), (3, 2), (2, 1), (1, 2)])) = Inr True \<and>
   filter_matrix test_libs square_wkt 1 matrix_frame = Inl TypeError \<and>
   filter_matrix test_libs square_wkt 2 matrix_frame = Inl TypeError"
proof -
  have "(\<exists>r. filter_matrix L bounds c df = Inr r) = (''grid_id'' \<in> set (columns df) \<and> rows df = [])"
    by (simp add: filter_matrix_iff)
  moreover have "hex_to_poly test_libs (Scalar ''H1'') =
      Inr (Polygon [(1, 2), (1, 3), (2, 4), (3, 3), (3, 2), (2, 1), (1, 2)])"
    by (simp add: test_defs hex_to_poly_def new_Polygon_def close_ring_def)
  moreover have "contains test_libs square_wkt
      (Geom (Polygon [(1, 2), (1, 3), (2, 4), (3, 3), (3, 2), (2, 1), (1, 2)])) = Inr True"
    by (simp add: test_defs)
  moreover have "filter_matrix test_libs square_wkt 1 matrix_frame = Inl TypeError"
    by (simp add: test_defs eval_defs filter_matrix_def)
  moreover have "filter_matrix test_libs square_wkt 2 matrix_frame = Inl TypeError"
    by (simp add: test_defs eval_defs filter_matrix_def)
  ultimately show ?thesis by blast
qed

text \<open>
  Claim C8. For every retained row, all input columns other than the derived geometry
  are passed through to the output unchanged; the output file has the same columns as
  the input plus an appended \<open>geometry\<close> column holding a textual polygon
  representation, and the row-number column is omitted.

  The code does not get that far. On the scenario, from a namespace that has the four
  attributes and an integer chunk size, lines 25-42 open both input files, raise
  \<open>TypeError\<close> in the first chunk and write nothing.
\<close>

theorem run_body_scenario_raises:
  "run_body test_libs (test_args 1) (test_world square_wkt matrix_csv) =
     (Raised TypeError,
      (test_world square_wkt matrix_csv)\<lparr>events := [OpenRead ''boundary.wkt'', OpenRead ''matrix.csv'']\<rparr>)"
  by (simp add: test_defs eval_defs)

text \<open>
  Claim C4. For every boundary geometry, running the filter on an empty matrix file
  (header row only, zero data rows) succeeds and produces an output file containing the
  header only and zero data rows.

  The run does not succeed. The parser stores the first argument under the name
  \<open>wkt-boundary-file\<close>, line 25 reads the attribute \<open>wkt_boundary_file\<close>, and the run
  raises \<open>AttributeError\<close> before it opens a file.
\<close>

theorem run_raises_on_header_only_matrix:
  "run test_libs [''boundary.wkt'', ''matrix.csv'', ''out.csv'', ''10'']
       (test_world square_wkt header_csv) =
     (Raised AttributeError, test_world square_wkt header_csv)"
  by (simp add: run_def parse_args_def run_body_def getattr_def)

text \<open>
  Claim C5. The command line accepts four positional arguments (boundary-file path,
  matrix-file path, output-file path, chunk size), and when the chunk-size argument is
  omitted it takes the integer default 500000 and the run proceeds with that chunk size.

  With the chunk size omitted the parser exits with status 2 and nothing runs. With it
  given, the namespace holds the word as a string, which pandas refuses as a chunk size.
\<close>

theorem run_requires_chunksize:
  "run test_libs [''boundary.wkt'', ''matrix.csv'', ''out.csv''] (test_world square_wkt matrix_csv) =
     (Raised (SystemExit 2), test_world square_wkt matrix_csv) \<and>
   parse_args [''boundary.wkt'', ''matrix.csv'', ''out.csv'', ''500000''] =
     Inr [(''wkt-boundary-file'', AStr ''boundary.wkt''), (''mep-matrix-file'', AStr ''matrix.csv''),
          (''output_file'', AStr ''out.csv''), (''chunksize'', AStr ''500000'')] \<and>
   validate_chunksize (AStr ''500000'') = Inl ValueError"
  by (simp add: run_def parse_args_def validate_chunksize_def)

section \<open>Files read and written\<close>

lemma read_csv_world:
  "read_csv L w file cs = (r, w') \<Longrightarrow>
     files w' = files w \<and> (\<exists>evs. events w' = events w @ evs \<and> filter is_write evs = [])"
  by (auto simp: read_csv_def open_read_def split: sum.splits option.splits argval.splits prod.splits)

lemma open_read_world:
  "open_read w a = (r, w') \<Longrightarrow>
     files w' = files w \<and> (\<exists>evs. events w' = events w @ evs \<and> filter is_write evs = [])"
  by (auto simp: open_read_def split: option.splits argval.splits)

lemma write_file_world:
  "write_file w a txt = (r, w') \<Longrightarrow>
     (r \<noteq> Returned \<and> w' = w) \<or>
     (\<exists>out. r = Returned \<and> files w' = (files w)(out \<mapsto> txt) \<and> events w' = events w @ [WriteFile out])"
  by (auto simp: write_file_def split: argval.splits if_splits)

lemma run_body_world:
  assumes "run_body L args w = (r, w')"
  shows "(r \<noteq> Returned \<and> files w' = files w \<and>
            (\<exists>evs. events w' = events w @ evs \<and> filter is_write evs = [])) \<or>
         (\<exists>out txt evs. r = Returned \<and> files w' = (files w)(out \<mapsto> txt) \<and>
            events w' = events w @ evs @ [WriteFile out] \<and> filter is_write evs = [])"
proof -
  show ?thesis
    using assms
    apply (simp add: run_body_def split: sum.splits prod.splits)
    apply (auto dest!: open_read_world read_csv_world write_file_world)
    done
qed

lemma run_world:
  "run L argv w = (Raised e, w') \<Longrightarrow> files w' = files w"
  by (auto simp: run_def split: sum.splits dest!: run_body_world)

text \<open>
  Claim C10. If any error is raised before the final write step (boundary-file parsing,
  matrix chunk reading, hex identifier decoding, or containment filtering), no output
  file is created at the output path: the output is written only once, after all chunks
  have been processed.

  When lines 25-42 raise, the files are as they were and nothing was written. When
  they return, one file was written, as the last event. When the whole run raises, the
  files are as they were.
\<close>

theorem no_output_before_final_write:
  "(run_body L args w = (Raised e, w') \<longrightarrow>
      files w' = files w \<and> filter is_write (events w') = filter is_write (events w)) \<and>
   (run_body L args w = (Returned, w') \<longrightarrow>
      (\<exists>out txt evs. files w' = (files w)(out \<mapsto> txt) \<and>
         events w' = events w @ evs @ [WriteFile out] \<and> filter is_write evs = [])) \<and>
   (run L argv w = (Raised e, w') \<longrightarrow> files w' = files w)"
  using run_body_world [of L args w "Raised e" w'] run_body_world [of L args w Returned w']
    run_world [of L argv w e w']
  by auto

theorem no_output_before_final_write_witness:
  "run_body test_libs (test_args 1) (test_world square_wkt matrix_csv) =
     (Raised TypeError,
      (test_world square_wkt matrix_csv)\<lparr>events := [OpenRead ''boundary.wkt'', OpenRead ''matrix.csv'']\<rparr>) \<and>
   files ((test_world square_wkt matrix_csv)\<lparr>events := [OpenRead ''boundary.wkt'', OpenRead ''matrix.csv'']\<rparr>) =
     files (test_world square_wkt matrix_csv) \<and>
   fst (run_body test_libs (test_args 1) (test_world square_wkt header_csv)) = Returned \<and>
   events (snd (run_body test_libs (test_args 1) (test_world square_wkt header_csv))) =
     [OpenRead ''boundary.wkt'', OpenRead ''matrix.csv'', WriteFile ''out.csv'']"
proof -
  let ?w = "test_world square_wkt matrix_csv"
  let ?w' = "?w\<lparr>events := [OpenRead ''boundary.wkt'', OpenRead ''matrix.csv'']\<rparr>"
  have a: "run_body test_libs (test_args 1) ?w = (Raised TypeError, ?w')"
    by (simp add: test_defs eval_defs)
  let ?v = "test_world square_wkt header_csv"
  obtain v' where b: "run_body test_libs (test_args 1) ?v = (Returned, v')"
    and c: "events v' = [OpenRead ''boundary.wkt'', OpenRead ''matrix.csv'', WriteFile ''out.csv'']"
    by (simp add: test_defs eval_defs)
  show ?thesis
    using no_output_before_final_write [of test_libs "test_args 1" ?w TypeError ?w' "[]"]
      no_output_before_final_write [of test_libs "test_args 1" ?v TypeError v' "[]"] a b c
    by simp
qed

section \<open>The geometry column\<close>

lemma apply_series_iff:
  "(apply_series f xs = Inr ys) = list_all2 (\<lambda>x y. f x = Inr y) xs ys"
proof (induction xs arbitrary: ys)
  case Nil
  show ?case by auto
next
  case (Cons x xs)
  show ?case
    by (cases ys) (auto simp: Cons.IH [symmetric] split: sum.splits)
qed

lemma add_geometry_InrD:
  "add_geometry L df = Inr df1 \<Longrightarrow>
     ''grid_id'' \<in> set (columns df) \<and>
     (\<exists>polys. list_all2 (\<lambda>r p. hex_to_poly L (case map_of r ''grid_id'' of Some v \<Rightarrow> v | None \<Rightarrow> NaN) = Inr p)
                (rows df) polys \<and>
              df1 = setitem df ''geometry'' (map Geom polys))"
  by (auto simp: add_geometry_def column_def apply_series_iff list_all2_map1
           split: sum.splits if_splits)

lemma apply_series_total:
  "list_all (\<lambda>x. \<exists>y. f x = Inr y) xs \<Longrightarrow> \<exists>ys. apply_series f xs = Inr ys"
  by (induction xs) auto

text \<open>
  Line 38 on a chunk that has a \<open>geometry\<close> column: the assignment raises nothing of
  its own (it succeeds whenever the chunk has a \<open>grid_id\<close> column and every cell
  decodes); the column list is unchanged; in every row the cell under \<open>geometry\<close> is
  the polygon of the row's cell, and every other cell is as it was.
\<close>

lemma add_geometry_overwrites:
  assumes "''geometry'' \<in> set (columns df)"
  shows "(''grid_id'' \<in> set (columns df) \<and>
          list_all (\<lambda>r. \<exists>p. hex_to_poly L (case map_of r ''grid_id'' of Some v \<Rightarrow> v | None \<Rightarrow> NaN) = Inr p)
            (rows df) \<longrightarrow>
          (\<exists>df1. add_geometry L df = Inr df1)) \<and>
         (\<forall>df1. add_geometry L df = Inr df1 \<longrightarrow>
            columns df1 = columns df \<and>
            list_all2
              (\<lambda>r r1. \<exists>p. hex_to_poly L (case map_of r ''grid_id'' of Some v \<Rightarrow> v | None \<Rightarrow> NaN) = Inr p \<and>
                          map_of r1 ''geometry'' = Some (Geom p) \<and>
                          (\<forall>k. k \<noteq> ''geometry'' \<longrightarrow> map_of r1 k = map_of r k))
              (rows df) (rows df1))"
proof -
  have total: "\<exists>df1. add_geometry L df = Inr df1"
    if "''grid_id'' \<in> set (columns df)"
      and "list_all (\<lambda>r. \<exists>p. hex_to_poly L (case map_of r ''grid_id'' of Some v \<Rightarrow> v | None \<Rightarrow> NaN) = Inr p)
             (rows df)"
  proof -
    from that(2) have "\<exists>ps. apply_series (hex_to_poly L)
        (map (\<lambda>r. case map_of r ''grid_id'' of Some v \<Rightarrow> v | None \<Rightarrow> NaN) (rows df)) = Inr ps"
      by (intro apply_series_total) (simp add: list_all_iff)
    with that(1) show ?thesis
      by (auto simp: add_geometry_def column_def)
  qed
  have over: "columns df1 = columns df \<and>
         list_all2
           (\<lambda>r r1. \<exists>p. hex_to_poly L (case map_of r ''grid_id'' of Some v \<Rightarrow> v | None \<Rightarrow> NaN) = Inr p \<and>
                       map_of r1 ''geometry'' = Some (Geom p) \<and>
                       (\<forall>k. k \<noteq> ''geometry'' \<longrightarrow> map_of r1 k = map_of r k))
           (rows df) (rows df1)"
    if ok: "add_geometry L df = Inr df1" for df1
  proof -
    from ok obtain polys where
      ps: "list_all2 (\<lambda>r p. hex_to_poly L (case map_of r ''grid_id'' of Some v \<Rightarrow> v | None \<Rightarrow> NaN) = Inr p)
             (rows df) polys"
      and df1: "df1 = setitem df ''geometry'' (map Geom polys)"
      by (auto dest: add_geometry_InrD)
    from ps have len: "length polys = length (rows df)"
      by (simp add: list_all2_lengthD)
    have cols: "columns df1 = columns df"
      using assms by (simp add: df1 setitem_def)
    have "list_all2
           (\<lambda>r r1. \<exists>p. hex_to_poly L (case map_of r ''grid_id'' of Some v \<Rightarrow> v | None \<Rightarrow> NaN) = Inr p \<and>
                       map_of r1 ''geometry'' = Some (Geom p) \<and>
                       (\<forall>k. k \<noteq> ''geometry'' \<longrightarrow> map_of r1 k = map_of r k))
           (rows df) (rows df1)"
      using ps len
      by (auto simp: df1 setitem_def list_all2_conv_all_nth AList.update_conv')
    with cols show ?thesis by simp
  qed
  from total over show ?thesis by blast
qed


section \<open>Two runs\<close>



end
